theory Spec2Isabelle
  imports
    Main
    "HOL-Library.Word"
    "HOL-Library.AList"
    "HOL-Library.Char_ord"
    "HOL-Library.List_Lexorder"
begin

section \<open>Python primitives used by the scanners\<close>

text \<open>
  Python \<open>str\<close> values are modelled as \<open>string\<close> (code points below 256), \<open>bytes\<close>
  values as lists of 8-bit words. File-system paths are strings; \<open>str(Path(p))\<close> is
  taken to be \<open>p\<close> itself, and \<open>os.path\<close> is the POSIX flavour.
\<close>

type_synonym byte = "8 word"
type_synonym bytes = "byte list"

text \<open>\<open>s.startswith(p)\<close> and \<open>s.endswith(ext)\<close>.\<close>

definition startswith :: "'a list \<Rightarrow> 'a list \<Rightarrow> bool" where
  "startswith s p \<longleftrightarrow> take (length p) s = p"

definition endswith :: "'a list \<Rightarrow> 'a list \<Rightarrow> bool" where
  "endswith s ext \<longleftrightarrow> length ext \<le> length s \<and> drop (length s - length ext) s = ext"

text \<open>\<open>sub in s\<close> on \<open>str\<close> and \<open>bytes\<close>: \<open>sub\<close> occurs as a contiguous block.\<close>

fun py_contains :: "'a list \<Rightarrow> 'a list \<Rightarrow> bool" where
  "py_contains sub [] = (sub = [])"
| "py_contains sub (x # xs) = (startswith (x # xs) sub \<or> py_contains sub xs)"

text \<open>\<open>s.find(sub)\<close>: the lowest index of an occurrence, \<open>-1\<close> when there is none.\<close>

fun py_find :: "'a list \<Rightarrow> 'a list \<Rightarrow> int" where
  "py_find sub [] = (if sub = [] then 0 else - 1)"
| "py_find sub (x # xs) =
     (if startswith (x # xs) sub then 0
      else (let r = py_find sub xs in if r < 0 then - 1 else r + 1))"

text \<open>Slices \<open>xs[a:b]\<close> and \<open>xs[:b]\<close>: a negative index counts from the end, and every
  index is clamped to the list.\<close>

definition clamp_index :: "nat \<Rightarrow> int \<Rightarrow> nat" where
  "clamp_index n i = (if i < 0 then nat (max 0 (int n + i)) else min n (nat i))"

definition py_slice :: "'a list \<Rightarrow> int \<Rightarrow> int \<Rightarrow> 'a list" where
  "py_slice xs a b =
     (let lo = clamp_index (length xs) a; hi = clamp_index (length xs) b
      in take (hi - lo) (drop lo xs))"

definition py_slice_to :: "'a list \<Rightarrow> int \<Rightarrow> 'a list" where
  "py_slice_to xs b = take (clamp_index (length xs) b) xs"

text \<open>\<open>sep.join(xs)\<close>.\<close>

fun join :: "string \<Rightarrow> string list \<Rightarrow> string" where
  "join sep [] = []"
| "join sep [x] = x"
| "join sep (x # y # ys) = x @ sep @ join sep (y # ys)"

text \<open>\<open>str.isspace\<close> on one character, which is also what \<open>\s\<close> matches in a \<open>str\<close> pattern.\<close>

definition isspace :: "char \<Rightarrow> bool" where
  "isspace c =
     (let n = (of_char c :: nat)
      in (9 \<le> n \<and> n \<le> 13) \<or> (28 \<le> n \<and> n \<le> 32) \<or> n = 133 \<or> n = 160)"

text \<open>\<open>s.strip()\<close>.\<close>

definition strip :: "string \<Rightarrow> string" where
  "strip s = rev (dropWhile isspace (rev (dropWhile isspace s)))"

text \<open>\<open>s.lower()\<close>: the ASCII capitals and the Latin-1 capitals (all of 192..222 but the
  multiplication sign 215) move up by 32.\<close>

definition lower_char :: "char \<Rightarrow> char" where
  "lower_char c =
     (let n = (of_char c :: nat)
      in if (65 \<le> n \<and> n \<le> 90) \<or> (192 \<le> n \<and> n \<le> 222 \<and> n \<noteq> 215)
         then char_of (n + 32) else c)"

definition lower :: "string \<Rightarrow> string" where
  "lower s = map lower_char s"

text \<open>\<open>s.splitlines()\<close>: a line ends at \<open>\n\<close>, \<open>\r\<close>, \<open>\r\n\<close>, \<open>\v\<close>, \<open>\f\<close>, the
  separators 28..30 and NEL (133); the terminators are dropped and a terminator at the very
  end opens no further line.\<close>

definition is_linebreak :: "char \<Rightarrow> bool" where
  "is_linebreak c =
     (let n = (of_char c :: nat)
      in (10 \<le> n \<and> n \<le> 13) \<or> (28 \<le> n \<and> n \<le> 30) \<or> n = 133)"

fun splitlines_from :: "string \<Rightarrow> string \<Rightarrow> string list" where
  "splitlines_from cur [] = (if cur = [] then [] else [rev cur])"
| "splitlines_from cur [c] =
     (if is_linebreak c then [rev cur] else [rev (c # cur)])"
| "splitlines_from cur (c # d # ds) =
     (if c = char_of (13::nat) \<and> d = char_of (10::nat) then rev cur # splitlines_from [] ds
      else if is_linebreak c then rev cur # splitlines_from [] (d # ds)
      else splitlines_from (c # cur) (d # ds))"

definition splitlines :: "string \<Rightarrow> string list" where
  "splitlines s = splitlines_from [] s"

text \<open>\<open>str(n)\<close> for a non-negative integer.\<close>

fun str_nat :: "nat \<Rightarrow> string" where
  "str_nat n =
     (if n < 10 then [char_of (48 + n)] else str_nat (n div 10) @ [char_of (48 + n mod 10)])"

definition str_int :: "int \<Rightarrow> string" where
  "str_int i = (if i < 0 then CHR ''-'' # str_nat (nat (- i)) else str_nat (nat i))"

text \<open>\<open>s.encode('utf-8')\<close> for code points below 256: one byte below 128, two bytes above.\<close>

definition utf8_char :: "char \<Rightarrow> bytes" where
  "utf8_char c =
     (let n = (of_char c :: nat)
      in if n < 128 then [of_nat n] else [of_nat (192 + n div 64), of_nat (128 + n mod 64)])"

definition encode_utf8 :: "string \<Rightarrow> bytes" where
  "encode_utf8 s = concat (map utf8_char s)"

text \<open>\<open>os.path.join(a, b)\<close>, \<open>os.path.isabs(p)\<close> and \<open>os.path.dirname(p)\<close>.\<close>

definition path_join :: "string \<Rightarrow> string \<Rightarrow> string" where
  "path_join a b =
     (if startswith b ''/'' then b
      else if a = [] \<or> endswith a ''/'' then a @ b
      else a @ ''/'' @ b)"

definition isabs :: "string \<Rightarrow> bool" where
  "isabs p = startswith p ''/''"

definition dirname :: "string \<Rightarrow> string" where
  "dirname p =
     (let head = rev (dropWhile (\<lambda>c. c \<noteq> CHR ''/'') (rev p))
      in if head \<noteq> [] \<and> \<not> list_all (\<lambda>c. c = CHR ''/'') head
         then rev (dropWhile (\<lambda>c. c = CHR ''/'') (rev head))
         else head)"

text \<open>\<open>s.replace('/', '.')\<close>.\<close>

definition replace_slash :: "string \<Rightarrow> string" where
  "replace_slash s = map (\<lambda>c. if c = CHR ''/'' then CHR ''.'' else c) s"


section \<open>Archives\<close>

text \<open>
  An archive member is its name together with what \<open>jar.open(name).read()\<close> gives:
  \<open>None\<close> when opening or reading the member raises. An archive is either unopenable
  (\<open>zipfile.ZipFile(path)\<close> raises, with the exception's message) or the list of its
  members in \<open>namelist()\<close> order.
\<close>

type_synonym entry = "string \<times> bytes option"

datatype archive = BadZip string | Zip "entry list"


section \<open>Console output\<close>

text \<open>
  Every \<open>print\<close> of the scanners is one value of \<open>out\<close>; \<open>render\<close> gives its text.
  Standard output is taken to accept every character (a UTF-8 terminal, or win32 after
  the \<open>reconfigure\<close> with \<open>errors='replace'\<close>), so no \<open>print\<close> raises and the
  \<open>UnicodeEncodeError\<close> handler of the report is never entered.
\<close>

datatype out =
    ErrorProcessing string string
  | FoundJars nat
  | ErrorNotFound string
  | ScanningJar string string
  | ScanningDir string string
  | ResultsHeader
  | Rule
  | NoOccurrences string
  | QuoteNote
  | JarHeader string nat
  | MatchLine string int string
  | MoreMatches int
  | Blank
  | LimitReached int
  | Summary int nat
  | Displayed int int

definition quoted :: "string \<Rightarrow> string" where
  "quoted s = [CHR 0x27] @ s @ [CHR 0x27]"

fun render :: "out \<Rightarrow> string list" where
  "render (ErrorProcessing jar_path msg) = [''Error processing '' @ jar_path @ '': '' @ msg]"
| "render (FoundJars n) = [''Found '' @ str_nat n @ '' JAR files to process.'']"
| "render (ErrorNotFound jar_path) = [''Error: JAR file '' @ quoted jar_path @ '' not found.'']"
| "render (ScanningJar search_text jar_path) =
     [''Scanning for '' @ quoted search_text @ '' in JAR file: '' @ jar_path]"
| "render (ScanningDir search_text current_dir) =
     [''Scanning for '' @ quoted search_text @ '' in JAR files within: '' @ current_dir]"
| "render ResultsHeader = [[], ''Search results:'']"
| "render Rule = [replicate 80 CHR ''-'']"
| "render (NoOccurrences search_text) =
     [''No occurrences of '' @ quoted search_text @ '' found in any JAR files.'']"
| "render QuoteNote =
     [[],
      ''Note: Your search string contains quotes which may need special handling.'',
      ''Try searching for parts of the string or using the --deep flag for more thorough inspection.'',
      ''For example: python jar_text_scanner.py '' @ [CHR 0x22] @ ''Pattern'' @ [CHR 0x22]
        @ '' -j upo-5.29.002.jar -b --deep'']"
| "render (JarHeader jar_path n) = [''JAR: '' @ jar_path @ '' ('' @ str_nat n @ '' matches)'']"
| "render (MatchLine file_name line_num line) =
     [''  - '' @ file_name @ '':'' @ str_int line_num @ '': '' @ line]"
| "render (MoreMatches n) =
     [''  ... and '' @ str_int n @ '' more matches (use --limit to show more)'']"
| "render Blank = [[]]"
| "render (LimitReached remaining_jars) =
     [''Output limit reached. '' @ str_int remaining_jars
        @ '' more JAR files with matches not shown.'',
      ''Use --total-limit to increase the maximum number of displayed matches.'']"
| "render (Summary total_matches total_jar_count) =
     [''Summary: Found '' @ str_int total_matches @ '' matches in '' @ str_nat total_jar_count
        @ '' JAR files.'']"
| "render (Displayed displayed_matches total_matches) =
     [''Displayed '' @ str_int displayed_matches @ '' out of '' @ str_int total_matches
        @ '' total matches.'']"


section \<open>The file system\<close>

text \<open>
  A directory listing is a list of nodes in \<open>scandir\<close> order. \<open>walk top_dir ns\<close> is
  \<open>os.walk(top_dir)\<close> on a directory with content \<open>ns\<close>: the triple of the directory itself,
  then the walks of its subdirectories in order.
\<close>

datatype node = File string | Dir string "node list"

fun dirnames :: "node list \<Rightarrow> string list" where
  "dirnames [] = []"
| "dirnames (File f # ns) = dirnames ns"
| "dirnames (Dir d sub # ns) = d # dirnames ns"

fun filenames :: "node list \<Rightarrow> string list" where
  "filenames [] = []"
| "filenames (File f # ns) = f # filenames ns"
| "filenames (Dir d sub # ns) = filenames ns"

fun walk :: "string \<Rightarrow> node list \<Rightarrow> (string \<times> string list \<times> string list) list" where
  "walk top_dir ns =
     (top_dir, dirnames ns, filenames ns)
     # concat (map (\<lambda>n. case n of File f \<Rightarrow> [] | Dir d sub \<Rightarrow> walk (path_join top_dir d) sub) ns)"

record filesystem =
  fs_tree :: "string \<Rightarrow> node list"
  fs_exists :: "string \<Rightarrow> bool"
  fs_archive :: "string \<Rightarrow> archive"

text \<open>\<open>find_jar_files\<close>, the same in both JAR scanners.\<close>

definition find_jar_files :: "filesystem \<Rightarrow> string \<Rightarrow> string list" where
  "find_jar_files fs directory =
     concat (map (\<lambda>(root_dir, _, files).
                    map (path_join root_dir) (filter (\<lambda>file. endswith (lower file) ''.jar'') files))
                 (walk directory (fs_tree fs directory)))"


section \<open>The package scanner (\<open>jar_package_scanner.py\<close>)\<close>

text \<open>
  The values that meet in the membership tests of \<open>scan_jar_file\<close>: the list \<open>results\<close>
  holds 2-tuples, the tested value is a \<open>str\<close>. Python's \<open>==\<close> between a \<open>str\<close> and a
  \<open>tuple\<close> is \<open>False\<close>.
\<close>

datatype pyval = PStr string | PTuple string string

fun py_eq :: "pyval \<Rightarrow> pyval \<Rightarrow> bool" where
  "py_eq (PStr a) (PStr b) = (a = b)"
| "py_eq (PTuple a b) (PTuple c d) = (a = c \<and> b = d)"
| "py_eq _ _ = False"

definition py_in :: "pyval \<Rightarrow> pyval list \<Rightarrow> bool" where
  "py_in x xs = list_ex (py_eq x) xs"

definition as_tuples :: "(string \<times> string) list \<Rightarrow> pyval list" where
  "as_tuples rs = map (\<lambda>(a, b). PTuple a b) rs"

text \<open>\<open>re.findall(r'package\s+([a-zA-Z0-9_.]+);', content)\<close>. The two repetitions are
  greedy and the character that must follow each lies outside its class, so a match at a
  position is found without backtracking. \<open>match_package\<close> gives the group and the length
  of the match; the scan resumes after a match and one character further otherwise.\<close>

definition is_pkg_char :: "char \<Rightarrow> bool" where
  "is_pkg_char c =
     (let n = (of_char c :: nat)
      in (97 \<le> n \<and> n \<le> 122) \<or> (65 \<le> n \<and> n \<le> 90) \<or> (48 \<le> n \<and> n \<le> 57)
         \<or> c = CHR ''_'' \<or> c = CHR ''.'')"

definition match_package :: "string \<Rightarrow> (string \<times> nat) option" where
  "match_package s =
     (if startswith s ''package'' then
        (let r1 = drop 7 s;
             ws = takeWhile isspace r1;
             r2 = dropWhile isspace r1;
             g = takeWhile is_pkg_char r2;
             r3 = dropWhile is_pkg_char r2
         in if ws \<noteq> [] \<and> g \<noteq> [] \<and> startswith r3 '';''
            then Some (g, 7 + length ws + length g + 1) else None)
      else None)"

fun findall_from :: "nat \<Rightarrow> string \<Rightarrow> string list" where
  "findall_from skip [] = []"
| "findall_from skip (c # cs) =
     (if 0 < skip then findall_from (skip - 1) cs
      else (case match_package (c # cs) of
              Some (g, n) \<Rightarrow> g # findall_from (n - 1) cs
            | None \<Rightarrow> findall_from 0 cs))"

definition findall_package :: "string \<Rightarrow> string list" where
  "findall_package content = findall_from 0 content"

text \<open>The two guarded appends of \<open>scan_jar_file\<close>:
  \<open>if package_name not in results: results.append((package_name, str(jar_path)))\<close>.\<close>

definition add_package :: "string \<Rightarrow> (string \<times> string) list \<Rightarrow> string \<Rightarrow> (string \<times> string) list" where
  "add_package jar_path results package_name =
     (if \<not> py_in (PStr package_name) (as_tuples results)
      then results @ [(package_name, jar_path)] else results)"

text \<open>The body of the loop over \<open>file_list\<close>. \<open>dec\<close> is
  \<open>bytes.decode('utf-8', errors='ignore')\<close>.\<close>

definition scan_entry :: "(bytes \<Rightarrow> string) \<Rightarrow> string \<Rightarrow> (string \<times> string) list \<Rightarrow> entry
    \<Rightarrow> (string \<times> string) list" where
  "scan_entry dec jar_path results e =
     (let file_name = fst e
      in if endswith file_name ''.class'' then
           (let package_path = dirname file_name
            in if package_path \<noteq> []
               then add_package jar_path results (replace_slash package_path)
               else results)
         else if endswith file_name ''.java'' then
           (case snd e of
              None \<Rightarrow> results
            | Some raw \<Rightarrow> foldl (add_package jar_path) results (findall_package (dec raw)))
         else results)"

text \<open>\<open>scan_jar_file\<close>: the returned list and the lines it prints.\<close>

definition scan_jar_file :: "(bytes \<Rightarrow> string) \<Rightarrow> string \<Rightarrow> archive
    \<Rightarrow> (string \<times> string) list \<times> out list" where
  "scan_jar_file dec jar_path ar =
     (case ar of
        BadZip msg \<Rightarrow> ([], [ErrorProcessing jar_path msg])
      | Zip file_list \<Rightarrow> (foldl (scan_entry dec jar_path) [] file_list, []))"

text \<open>The aggregation loop of \<open>process_jar_files\<close>: \<open>package_to_jars\<close> is a dictionary
  from package names to lists of archive paths, kept as an association list in insertion
  order.\<close>

definition add_jar :: "(string \<times> string list) list \<Rightarrow> string \<times> string
    \<Rightarrow> (string \<times> string list) list" where
  "add_jar package_to_jars r =
     (let package_name = fst r; jar_path = snd r
      in case map_of package_to_jars package_name of
           Some jars \<Rightarrow>
             (if jar_path \<notin> set jars
              then AList.update package_name (jars @ [jar_path]) package_to_jars
              else package_to_jars)
         | None \<Rightarrow> AList.update package_name [jar_path] package_to_jars)"

definition aggregate_packages :: "(string \<times> string) list list \<Rightarrow> (string \<times> string list) list" where
  "aggregate_packages results = foldl (\<lambda>d jar_results. foldl add_jar d jar_results) [] results"

definition process_jar_files :: "(bytes \<Rightarrow> string) \<Rightarrow> filesystem \<Rightarrow> string
    \<Rightarrow> (string \<times> string list) list \<times> out list" where
  "process_jar_files dec fs directory =
     (let jar_files = find_jar_files fs directory;
          scans = map (\<lambda>jar_path. scan_jar_file dec jar_path (fs_archive fs jar_path)) jar_files
      in (aggregate_packages (map fst scans),
          FoundJars (length jar_files) # concat (map snd scans)))"


section \<open>The text scanner (\<open>jar_text_scanner.py\<close>)\<close>

text \<open>A match is the tuple \<open>(file_name, str(jar_path), line_number, text)\<close>.\<close>

type_synonym match = "string \<times> string \<times> int \<times> string"

definition text_extensions :: "string list" where
  "text_extensions =
     [''.java'', ''.class'', ''.xml'', ''.properties'', ''.txt'', ''.md'',
      ''.yml'', ''.yaml'', ''.json'', ''.html'', ''.css'', ''.js'', ''.jsp'',
      ''.config'', ''.ini'', ''.conf'', ''.MF'', ''.sql'']"

definition is_target_file :: "bool \<Rightarrow> string \<Rightarrow> bool" where
  "is_target_file binary_mode file_name =
     (if binary_mode then True
      else (list_ex (endswith file_name) text_extensions \<or> \<not> py_contains ''.'' file_name))"

text \<open>\<open>str(b)\<close> of a \<open>bytes\<close> value: \<open>b'...'\<close>, in double quotes when the value holds a
  single quote and no double quote; the quote and the backslash are escaped, tab, newline
  and carriage return are written \<open>\t\<close>, \<open>\n\<close>, \<open>\r\<close>, every other byte outside 32..126 as
  \<open>\xhh\<close>.\<close>

definition hex_digit :: "nat \<Rightarrow> char" where
  "hex_digit n = (if n < 10 then char_of (48 + n) else char_of (87 + n))"

definition repr_byte :: "nat \<Rightarrow> byte \<Rightarrow> string" where
  "repr_byte quote b =
     (let n = unat b
      in if n = quote \<or> n = 92 then [CHR 0x5C, char_of n]
         else if n = 9 then [CHR 0x5C, CHR ''t'']
         else if n = 10 then [CHR 0x5C, CHR ''n'']
         else if n = 13 then [CHR 0x5C, CHR ''r'']
         else if n < 32 \<or> 127 \<le> n then [CHR 0x5C, CHR ''x'', hex_digit (n div 16), hex_digit (n mod 16)]
         else [char_of n])"

definition str_bytes :: "bytes \<Rightarrow> string" where
  "str_bytes bs =
     (let quote = (if 39 \<in> set (map unat bs) \<and> 34 \<notin> set (map unat bs) then 34 else 39)
      in CHR ''b'' # char_of quote # concat (map (repr_byte quote) bs) @ [char_of quote])"

text \<open>\<open>re.findall(b'[\x01-\x7F]{3,}', content)\<close>: the maximal runs of bytes in 1..127 that
  are at least three bytes long.\<close>

fun ascii_runs_from :: "bytes \<Rightarrow> bytes \<Rightarrow> bytes list" where
  "ascii_runs_from cur [] = (if 3 \<le> length cur then [rev cur] else [])"
| "ascii_runs_from cur (b # bs) =
     (if 1 \<le> unat b \<and> unat b \<le> 127 then ascii_runs_from (b # cur) bs
      else (if 3 \<le> length cur then [rev cur] else []) @ ascii_runs_from [] bs)"

definition ascii_runs :: "bytes \<Rightarrow> bytes list" where
  "ascii_runs content = ascii_runs_from [] content"

text \<open>The binary branch of the loop body, on the bytes read from the member.\<close>

definition binary_matches :: "string \<Rightarrow> string \<Rightarrow> string \<Rightarrow> bool \<Rightarrow> bytes \<Rightarrow> match list" where
  "binary_matches file_name jar_path search_text deep_inspection content =
     (let search_bytes = encode_utf8 search_text
      in if py_contains search_bytes content then
           (let match_pos = py_find search_bytes content;
                start_pos = max 0 (match_pos - 20);
                end_pos = min (int (length content)) (match_pos + int (length search_bytes) + 20);
                context = py_slice content start_pos end_pos;
                string_matches = ascii_runs content;
                context_str =
                  (if endswith file_name ''.class'' \<and> deep_inspection \<and> string_matches \<noteq> []
                   then ''String literals: '' @ join '' | '' (map str_bytes (py_slice_to string_matches 20))
                   else str_bytes context)
            in [(file_name, jar_path, 0,
                 ''Binary match at position '' @ str_int match_pos @ '': '' @ context_str)])
         else [])"

text \<open>The text branch: \<open>enumerate(lines, 1)\<close> pairs every line with its number.\<close>

definition line_matches :: "string \<Rightarrow> bool \<Rightarrow> string \<Rightarrow> bool" where
  "line_matches search_text case_sensitive line =
     (if case_sensitive then py_contains search_text line
      else py_contains (lower search_text) (lower line))"

definition text_matches :: "string \<Rightarrow> string \<Rightarrow> string \<Rightarrow> bool \<Rightarrow> string \<Rightarrow> match list" where
  "text_matches file_name jar_path search_text case_sensitive content =
     (let lines = splitlines content
      in map (\<lambda>(line_num, line). (file_name, jar_path, line_num, strip line))
             (filter (\<lambda>(line_num, line). line_matches search_text case_sensitive line)
                     (zip (map int [1 ..< Suc (length lines)]) lines)))"

text \<open>The body of the loop over \<open>file_list\<close>: what one member adds to \<open>results\<close>. A member
  that cannot be opened or read adds nothing.\<close>

definition scan_entry_for_text :: "(bytes \<Rightarrow> string) \<Rightarrow> string \<Rightarrow> string \<Rightarrow> bool \<Rightarrow> bool \<Rightarrow> bool
    \<Rightarrow> entry \<Rightarrow> match list" where
  "scan_entry_for_text dec jar_path search_text case_sensitive binary_mode deep_inspection e =
     (let file_name = fst e
      in if is_target_file binary_mode file_name then
           (case snd e of
              None \<Rightarrow> []
            | Some raw \<Rightarrow>
                (if binary_mode
                 then binary_matches file_name jar_path search_text deep_inspection raw
                 else text_matches file_name jar_path search_text case_sensitive (dec raw)))
         else [])"

definition scan_jar_file_for_text :: "(bytes \<Rightarrow> string) \<Rightarrow> string \<Rightarrow> archive \<Rightarrow> string \<Rightarrow> bool
    \<Rightarrow> bool \<Rightarrow> bool \<Rightarrow> match list \<times> out list" where
  "scan_jar_file_for_text dec jar_path ar search_text case_sensitive binary_mode deep_inspection =
     (case ar of
        BadZip msg \<Rightarrow> ([], [ErrorProcessing jar_path msg])
      | Zip file_list \<Rightarrow>
          (concat (map (scan_entry_for_text dec jar_path search_text case_sensitive binary_mode
                          deep_inspection) file_list), []))"

text \<open>\<open>process_jar_files\<close> of the text scanner: \<open>jar_to_matches\<close> is a dictionary from archive
  paths to match lists, kept as an association list in insertion order.\<close>

definition merge_results :: "(string \<times> match list) list \<Rightarrow> (string \<times> match list) list" where
  "merge_results scanned =
     foldl (\<lambda>jar_to_matches (jar_path, jar_results).
              if jar_results \<noteq> [] then AList.update jar_path jar_results jar_to_matches
              else jar_to_matches)
           [] scanned"

definition scan_batch :: "(bytes \<Rightarrow> string) \<Rightarrow> filesystem \<Rightarrow> string list \<Rightarrow> string \<Rightarrow> bool \<Rightarrow> bool
    \<Rightarrow> bool \<Rightarrow> (string \<times> match list) list \<times> out list" where
  "scan_batch dec fs jar_files search_text case_sensitive binary_mode deep_inspection =
     (let scans = map (\<lambda>jar_path. scan_jar_file_for_text dec jar_path (fs_archive fs jar_path)
                          search_text case_sensitive binary_mode deep_inspection) jar_files
      in (merge_results (zip jar_files (map fst scans)), concat (map snd scans)))"

definition process_jar_files_for_text :: "(bytes \<Rightarrow> string) \<Rightarrow> filesystem \<Rightarrow> string \<Rightarrow> string
    \<Rightarrow> bool \<Rightarrow> bool \<Rightarrow> bool \<Rightarrow> (string \<times> match list) list \<times> out list" where
  "process_jar_files_for_text dec fs directory search_text case_sensitive binary_mode deep_inspection =
     (let jar_files = find_jar_files fs directory;
          r = scan_batch dec fs jar_files search_text case_sensitive binary_mode deep_inspection
      in (fst r, FoundJars (length jar_files) # snd r))"

subsection \<open>The report of \<open>main\<close>\<close>

text \<open>What the loop prints for one archive: the header, the first \<open>display_count\<close>
  matches, the notice when \<open>len(matches) > limit_per_jar\<close>, and the empty line.\<close>

definition print_match :: "match \<Rightarrow> out" where
  "print_match m = (case m of (file_name, _, line_num, line) \<Rightarrow> MatchLine file_name line_num line)"

definition show_jar :: "int \<Rightarrow> string \<Rightarrow> match list \<Rightarrow> out list" where
  "show_jar limit_per_jar jar_path matches =
     (let display_count = min (int (length matches)) limit_per_jar
      in JarHeader jar_path (length matches)
         # map print_match (py_slice_to matches display_count)
         @ (if int (length matches) > limit_per_jar
            then [MoreMatches (int (length matches) - limit_per_jar)] else [])
         @ [Blank])"

text \<open>\<open>list(jar_to_matches.keys()).index(jar_path)\<close>.\<close>

fun index_of :: "'a list \<Rightarrow> 'a \<Rightarrow> nat" where
  "index_of [] x = 0"
| "index_of (y # ys) x = (if y = x then 0 else Suc (index_of ys x))"

text \<open>The loop over \<open>sorted(jar_to_matches.keys())\<close>, carrying \<open>total_matches\<close> and
  \<open>displayed_matches\<close>; it returns what it printed and the two counters. The keys come
  from the dictionary, so the lookup finds each of them. The \<open>break\<close> is the branch that
  does not recur.\<close>

fun report_loop :: "int \<Rightarrow> int \<Rightarrow> (string \<times> match list) list \<Rightarrow> string list \<Rightarrow> int \<Rightarrow> int
    \<Rightarrow> out list \<times> int \<times> int" where
  "report_loop limit_per_jar total_limit jar_to_matches [] total_matches displayed_matches =
     ([], total_matches, displayed_matches)"
| "report_loop limit_per_jar total_limit jar_to_matches (jar_path # rest) total_matches
       displayed_matches =
     (case map_of jar_to_matches jar_path of
        None \<Rightarrow> ([], total_matches, displayed_matches)
      | Some matches \<Rightarrow>
          (let total_matches' = total_matches + int (length matches);
               display_count = min (int (length matches)) limit_per_jar;
               printed = show_jar limit_per_jar jar_path matches;
               displayed_matches' = displayed_matches + display_count
           in if displayed_matches' \<ge> total_limit then
                (let remaining_jars =
                       int (length jar_to_matches)
                       - (int (index_of (map fst jar_to_matches) jar_path) + 1)
                 in (printed @ (if remaining_jars > 0 then [LimitReached remaining_jars] else []),
                     total_matches', displayed_matches'))
              else
                (case report_loop limit_per_jar total_limit jar_to_matches rest total_matches'
                        displayed_matches' of
                   (later, t, d) \<Rightarrow> (printed @ later, t, d))))"

definition report :: "string \<Rightarrow> int \<Rightarrow> int \<Rightarrow> (string \<times> match list) list \<Rightarrow> out list" where
  "report search_text limit_per_jar total_limit jar_to_matches =
     (if jar_to_matches = [] then
        NoOccurrences search_text
        # (if py_contains [CHR 0x22] search_text then [QuoteNote] else [])
      else
        (case report_loop limit_per_jar total_limit jar_to_matches
                (sort (map fst jar_to_matches)) 0 0 of
           (printed, total_matches, displayed_matches) \<Rightarrow>
             printed
             @ [Summary total_matches (length jar_to_matches)]
             @ (if displayed_matches < total_matches
                then [Displayed displayed_matches total_matches] else [])))"

text \<open>\<open>main\<close>, with the parsed arguments as parameters. \<open>specific_jar\<close> is \<open>None\<close> without
  \<open>-j\<close>; an empty string is false as well. The first component of \<open>scanned\<close> is \<open>None\<close>
  on the early \<open>return\<close>.\<close>

definition main :: "(bytes \<Rightarrow> string) \<Rightarrow> filesystem \<Rightarrow> string \<Rightarrow> string \<Rightarrow> int \<Rightarrow> int
    \<Rightarrow> bool \<Rightarrow> bool \<Rightarrow> string option \<Rightarrow> bool \<Rightarrow> out list" where
  "main dec fs search_text current_dir limit_per_jar total_limit case_sensitive binary_mode
       specific_jar deep_inspection =
     (let whole_tree =
            (let r = process_jar_files_for_text dec fs current_dir search_text case_sensitive
                       binary_mode deep_inspection
             in (Some (fst r), ScanningDir search_text current_dir # snd r));
          scanned =
            (case specific_jar of
               None \<Rightarrow> whole_tree
             | Some name \<Rightarrow>
                 (if name = [] then whole_tree
                  else
                    (let jar_path = (if \<not> isabs name then path_join current_dir name else name)
                     in if \<not> fs_exists fs jar_path then (None, [ErrorNotFound jar_path])
                        else
                          (let r = scan_jar_file_for_text dec jar_path (fs_archive fs jar_path)
                                     search_text case_sensitive binary_mode deep_inspection
                           in (Some (if fst r \<noteq> [] then [(jar_path, fst r)] else []),
                               ScanningJar search_text jar_path # snd r)))))
      in case fst scanned of
           None \<Rightarrow> snd scanned
         | Some jar_to_matches \<Rightarrow>
             snd scanned @ [ResultsHeader, Rule]
             @ report search_text limit_per_jar total_limit jar_to_matches)"

text \<open>The script: \<open>asyncio.run(main())\<close> is its last statement, \<open>main\<close> leaves by falling off
  its end or by a bare \<open>return\<close>, and nothing calls \<open>sys.exit\<close>; the interpreter then ends
  with exit status 0. \<open>run_script\<close> gives the output and the exit status.\<close>

definition run_script :: "(bytes \<Rightarrow> string) \<Rightarrow> filesystem \<Rightarrow> string \<Rightarrow> string \<Rightarrow> int \<Rightarrow> int
    \<Rightarrow> bool \<Rightarrow> bool \<Rightarrow> string option \<Rightarrow> bool \<Rightarrow> out list \<times> int" where
  "run_script dec fs search_text current_dir limit_per_jar total_limit case_sensitive binary_mode
       specific_jar deep_inspection =
     (main dec fs search_text current_dir limit_per_jar total_limit case_sensitive binary_mode
        specific_jar deep_inspection, 0)"


subsection \<open>The sources a report visits\<close>

text \<open>The keys the loop of \<open>main\<close> reaches, given the keys still to come and the current
  \<open>displayed_matches\<close>: the loop goes on to the next key until the sum of the display counts
  has reached \<open>total_limit\<close>, and the key at which that happens is the last one visited.\<close>

fun visited_sources :: "int \<Rightarrow> int \<Rightarrow> (string \<times> match list) list \<Rightarrow> string list \<Rightarrow> int
    \<Rightarrow> string list" where
  "visited_sources limit_per_jar total_limit jar_to_matches [] displayed_matches = []"
| "visited_sources limit_per_jar total_limit jar_to_matches (jar_path # rest) displayed_matches =
     (case map_of jar_to_matches jar_path of
        None \<Rightarrow> []
      | Some matches \<Rightarrow>
          (let displayed_matches' = displayed_matches + min (int (length matches)) limit_per_jar
           in if displayed_matches' \<ge> total_limit then [jar_path]
              else jar_path # visited_sources limit_per_jar total_limit jar_to_matches rest
                                displayed_matches'))"

definition visited_jars :: "int \<Rightarrow> int \<Rightarrow> (string \<times> match list) list \<Rightarrow> string list" where
  "visited_jars limit_per_jar total_limit jar_to_matches =
     visited_sources limit_per_jar total_limit jar_to_matches (sort (map fst jar_to_matches)) 0"

text \<open>\<open>jar_to_matches[jar_path]\<close> for a key of the dictionary.\<close>

definition matches_of :: "(string \<times> match list) list \<Rightarrow> string \<Rightarrow> match list" where
  "matches_of jar_to_matches jar_path =
     (case map_of jar_to_matches jar_path of Some matches \<Rightarrow> matches | None \<Rightarrow> [])"

text \<open>The lines of a report that belong to no source: the notice of the total limit and
  the summary lines.\<close>

fun is_trailer :: "out \<Rightarrow> bool" where
  "is_trailer (LimitReached _) = True"
| "is_trailer (Summary _ _) = True"
| "is_trailer (Displayed _ _) = True"
| "is_trailer _ = False"


section \<open>The source searcher (\<open>java_text_searcher.py\<close>)\<close>

text \<open>
  The object state of \<open>JavaTextSearcher\<close>. The console output of this script (which
  includes the elapsed time) is left out. \<open>search\<close> stands for \<open>_search_file_sync\<close> on the
  given file system: the list of \<open>(line_number, line)\<close> pairs it returns for a path.
\<close>

record searcher =
  self_search_text :: string
  self_root_dir :: string
  self_case_sensitive :: bool
  self_results :: "(string \<times> (int \<times> string) list) list"
  self_java_files :: "string list"

definition init_searcher :: "string \<Rightarrow> string \<Rightarrow> bool \<Rightarrow> searcher" where
  "init_searcher search_text root_dir case_sensitive =
     \<lparr> self_search_text = search_text, self_root_dir = root_dir,
       self_case_sensitive = case_sensitive, self_results = [], self_java_files = [] \<rparr>"

definition find_java_files_sync :: "filesystem \<Rightarrow> searcher \<Rightarrow> string list" where
  "find_java_files_sync fs self =
     concat (map (\<lambda>(root_dir, _, files).
                    map (path_join root_dir) (filter (\<lambda>file. endswith file ''.java'') files))
                 (walk (self_root_dir self) (fs_tree fs (self_root_dir self))))"

definition find_java_files :: "filesystem \<Rightarrow> searcher \<Rightarrow> searcher" where
  "find_java_files fs self = self\<lparr> self_java_files := find_java_files_sync fs self \<rparr>"

definition search_all_files :: "(string \<Rightarrow> (int \<times> string) list) \<Rightarrow> filesystem \<Rightarrow> searcher
    \<Rightarrow> searcher \<times> (string \<times> (int \<times> string) list) list" where
  "search_all_files search fs self =
     (let self1 = (if self_java_files self = [] then find_java_files fs self else self)
      in if self_java_files self1 = [] then (self1, [])
         else
           (let results = map (\<lambda>file_path. (file_path, search file_path)) (self_java_files self1);
                self2 = self1\<lparr> self_results :=
                          foldl (\<lambda>d (file_path, matches).
                                   if matches \<noteq> [] then AList.update file_path matches d else d)
                                (self_results self1) results \<rparr>
            in (self2, self_results self2)))"


section \<open>Concrete inputs\<close>

text \<open>A decoder for the examples: on bytes below 128, \<open>decode('utf-8', errors='ignore')\<close>
  gives the characters with the same codes.\<close>

definition decode_ascii :: "bytes \<Rightarrow> string" where
  "decode_ascii bs = map (\<lambda>b. char_of (unat b)) (filter (\<lambda>b. unat b < 128) bs)"

definition ascii_bytes :: "string \<Rightarrow> bytes" where
  "ascii_bytes s = map (\<lambda>c. of_nat (of_char c)) s"

text \<open>A directory \<open>/r\<close> with two archives: \<open>a.jar\<close> holds a text member with three lines
  containing \<open>x\<close>, \<open>b.jar\<close> one with two such lines. Nothing else exists.\<close>

definition two_jars :: filesystem where
  "two_jars =
     \<lparr> fs_tree = (\<lambda>d. if d = ''/r'' then [File ''a.jar'', File ''b.jar''] else []),
       fs_exists = (\<lambda>p. p = ''/r/a.jar'' \<or> p = ''/r/b.jar''),
       fs_archive = (\<lambda>p.
         if p = ''/r/a.jar''
           then Zip [(''A.txt'', Some (ascii_bytes (''x1'' @ [CHR 0x0A] @ ''x2'' @ [CHR 0x0A] @ ''x3'')))]
         else if p = ''/r/b.jar''
           then Zip [(''B.txt'', Some (ascii_bytes (''x4'' @ [CHR 0x0A] @ ''x5'')))]
         else BadZip ''No such file'') \<rparr>"

text \<open>The lines of a report that show a match, and the number of matches in a scan result.\<close>

fun is_match_line :: "out \<Rightarrow> bool" where
  "is_match_line (MatchLine _ _ _) = True"
| "is_match_line _ = False"

definition displayed_lines :: "out list \<Rightarrow> nat" where
  "displayed_lines printed = length (filter is_match_line printed)"

definition true_total :: "(string \<times> match list) list \<Rightarrow> nat" where
  "true_total jar_to_matches = sum_list (map (\<lambda>(jar_path, matches). length matches) jar_to_matches)"

text \<open>A source tree \<open>src\<close> with one file named \<open>Foo.Java\<close> and a directory \<open>lib\<close> with one
  file named \<open>app.JAR\<close>.\<close>

definition mixed_case_tree :: filesystem where
  "mixed_case_tree =
     \<lparr> fs_tree = (\<lambda>d. if d = ''src'' then [File ''Foo.Java'']
                       else if d = ''lib'' then [File ''app.JAR''] else []),
       fs_exists = (\<lambda>p. p = ''src/Foo.Java'' \<or> p = ''lib/app.JAR''),
       fs_archive = (\<lambda>p. BadZip ''not a zip file'') \<rparr>"

text \<open>A directory \<open>/r\<close> with an unopenable archive and a good one that holds a class in
  package \<open>com.acme\<close> and a text member with one line.\<close>

definition one_corrupt :: filesystem where
  "one_corrupt =
     \<lparr> fs_tree = (\<lambda>d. if d = ''/r'' then [File ''bad.jar'', File ''good.jar''] else []),
       fs_exists = (\<lambda>p. p = ''/r/bad.jar'' \<or> p = ''/r/good.jar''),
       fs_archive = (\<lambda>p.
         if p = ''/r/good.jar''
           then Zip [(''com/acme/Foo.class'', Some []), (''notes.txt'', Some (ascii_bytes ''TODO x''))]
         else BadZip ''File is not a zip file'') \<rparr>"

text \<open>Five matches of one text member of \<open>a.jar\<close>.\<close>

definition five_todo :: "match list" where
  "five_todo =
     [(''T.txt'', ''a.jar'', 1, ''TODO a''), (''T.txt'', ''a.jar'', 2, ''TODO b''),
      (''T.txt'', ''a.jar'', 3, ''TODO c''), (''T.txt'', ''a.jar'', 4, ''TODO d''),
      (''T.txt'', ''a.jar'', 5, ''TODO e'')]"

text \<open>An archive is corrupt when it cannot be opened.\<close>

fun is_corrupt :: "archive \<Rightarrow> bool" where
  "is_corrupt (BadZip _) = True"
| "is_corrupt (Zip _) = False"


section \<open>Facts about the primitives\<close>



lemma py_slice_to_nonneg: "0 \<le> k \<Longrightarrow> py_slice_to xs k = take (nat k) xs"
  by (simp add: py_slice_to_def clamp_index_def min_def)

lemma utf8_char_nonempty: "utf8_char c \<noteq> []"
  by (simp add: utf8_char_def Let_def)

lemma encode_utf8_empty: "encode_utf8 s = [] \<longleftrightarrow> s = []"
  by (cases s) (simp_all add: encode_utf8_def utf8_char_nonempty)

lemma zip_map_self: "zip ps (map f ps) = map (\<lambda>p. (p, f p)) ps"
  by (induction ps) auto


section \<open>The package scanner: repeated packages\<close>

text \<open>The membership test of \<open>scan_jar_file\<close> compares a string with tuples, so it never
  finds the package and every candidate is appended.\<close>

lemma py_in_str_tuples: "\<not> py_in (PStr p) (as_tuples rs)"
  by (induction rs) (auto simp: py_in_def as_tuples_def)

lemma add_package_appends: "add_package jar_path rs p = rs @ [(p, jar_path)]"
  by (simp add: add_package_def py_in_str_tuples)

text \<open>The aggregation of \<open>process_jar_files\<close> compares like with like and keeps one archive
  path per package.\<close>

lemma aggregate_packages_once:
  "aggregate_packages [[(''com.acme'', ''lib/a.jar''), (''com.acme'', ''lib/a.jar'')]]
     = [(''com.acme'', [''lib/a.jar''])]"
  by (simp add: aggregate_packages_def add_jar_def)

text \<open>
  C1. The claim: the list returned by the per-archive package scan holds no
  \<open>(package_name, source)\<close> pair twice. The code at an archive \<open>lib/a.jar\<close> with the two
  members \<open>com/acme/Foo.class\<close> and \<open>com/acme/Bar.class\<close>: the returned list holds the pair
  \<open>(com.acme, lib/a.jar)\<close> twice.
\<close>

theorem scan_jar_file_repeats_package:
  "fst (scan_jar_file decode_ascii ''lib/a.jar''
          (Zip [(''com/acme/Foo.class'', Some []), (''com/acme/Bar.class'', Some [])]))
     = [(''com.acme'', ''lib/a.jar''), (''com.acme'', ''lib/a.jar'')]"
  by (simp add: scan_jar_file_def scan_entry_def endswith_def dirname_def replace_slash_def
        add_package_appends)


section \<open>The report: limits and totals\<close>

lemma two_jars_scan:
  "fst (process_jar_files_for_text decode_ascii two_jars ''/r'' ''x'' False False False) =
     [(''/r/a.jar'', [(''A.txt'', ''/r/a.jar'', 1, ''x1''), (''A.txt'', ''/r/a.jar'', 2, ''x2''),
                      (''A.txt'', ''/r/a.jar'', 3, ''x3'')]),
      (''/r/b.jar'', [(''B.txt'', ''/r/b.jar'', 1, ''x4''), (''B.txt'', ''/r/b.jar'', 2, ''x5'')])]"
  by code_simp

lemma two_jars_main:
  "main decode_ascii two_jars ''x'' ''/r'' 10 2 False False None False =
     [ScanningDir ''x'' ''/r'', FoundJars 2, ResultsHeader, Rule, JarHeader ''/r/a.jar'' 3,
      MatchLine ''A.txt'' 1 ''x1'', MatchLine ''A.txt'' 2 ''x2'', MatchLine ''A.txt'' 3 ''x3'',
      Blank, LimitReached 1, Summary 3 2]"
  by code_simp

text \<open>
  C2. The claim: the report never shows more match lines than the total limit, and its
  summary gives the number of matches of all sources even when the display is cut. The code
  on the directory \<open>two_jars\<close> (three matches in \<open>a.jar\<close>, two in \<open>b.jar\<close>) with a per-archive
  limit of 10 and a total limit of 2: three match lines are shown, and the summary says 3
  matches in 2 archives while the scan found 5.
\<close>

theorem report_overruns_total_limit:
  "displayed_lines (main decode_ascii two_jars ''x'' ''/r'' 10 2 False False None False) = 3
   \<and> Summary 3 2 \<in> set (main decode_ascii two_jars ''x'' ''/r'' 10 2 False False None False)
   \<and> true_total (fst (process_jar_files_for_text decode_ascii two_jars ''/r'' ''x''
                         False False False)) = 5"
  by (simp add: two_jars_main two_jars_scan displayed_lines_def true_total_def)


section \<open>The enumerators\<close>

text \<open>
  C8. The claim: the enumerators compare the suffix without regard to case, so \<open>.JAR\<close> and
  \<open>.Java\<close> are found like \<open>.jar\<close> and \<open>.java\<close>. The code on \<open>mixed_case_tree\<close>:
  \<open>find_jar_files\<close> lower-cases the name and finds \<open>lib/app.JAR\<close>, while
  \<open>_find_java_files_sync\<close> compares the name as it is and does not find \<open>src/Foo.Java\<close>.
\<close>

theorem find_java_files_case_sensitive:
  "find_java_files_sync mixed_case_tree (init_searcher ''x'' ''src'' False) = []
   \<and> find_jar_files mixed_case_tree ''lib'' = [''lib/app.JAR'']"
  by code_simp


section \<open>Exit status\<close>

text \<open>
  C3, as amended. When \<open>-j\<close> names an archive that does not exist, the program prints the
  error message and stops there, without a report; when the scan finds nothing, the report is
  the line saying that no occurrences were found. In both cases the exit status is 0.
\<close>

theorem missing_jar_and_no_matches:
  "(let jar_path = (if \<not> isabs name then path_join cd name else name);
        scan = scan_jar_file_for_text dec jar_path (fs_archive fs jar_path) s cs bm deep;
        batch = process_jar_files_for_text dec fs cd s cs bm deep;
        no_matches = [ResultsHeader, Rule, NoOccurrences s]
                     @ (if py_contains [CHR 0x22] s then [QuoteNote] else [])
    in (name \<noteq> [] \<and> \<not> fs_exists fs jar_path \<longrightarrow>
          run_script dec fs s cd lim tot cs bm (Some name) deep = ([ErrorNotFound jar_path], 0))
     \<and> (name \<noteq> [] \<and> fs_exists fs jar_path \<and> fst scan = [] \<longrightarrow>
          run_script dec fs s cd lim tot cs bm (Some name) deep
            = (ScanningJar s jar_path # snd scan @ no_matches, 0))
     \<and> (fst batch = [] \<longrightarrow>
          run_script dec fs s cd lim tot cs bm None deep
            = (ScanningDir s cd # snd batch @ no_matches, 0)))"
  by (simp add: run_script_def main_def report_def Let_def)

text \<open>On \<open>two_jars\<close>: a missing \<open>missing.jar\<close>, and the search for \<open>zzz\<close>, which occurs
  nowhere, in \<open>a.jar\<close> and in the whole directory.\<close>

theorem missing_jar_and_no_matches_witness:
  "run_script decode_ascii two_jars ''x'' ''/r'' 10 1000 False False (Some ''missing.jar'') False
     = ([ErrorNotFound ''/r/missing.jar''], 0)
   \<and> run_script decode_ascii two_jars ''zzz'' ''/r'' 10 1000 False False (Some ''a.jar'') False
     = ([ScanningJar ''zzz'' ''/r/a.jar'', ResultsHeader, Rule, NoOccurrences ''zzz''], 0)
   \<and> run_script decode_ascii two_jars ''zzz'' ''/r'' 10 1000 False False None False
     = ([ScanningDir ''zzz'' ''/r'', FoundJars 2, ResultsHeader, Rule, NoOccurrences ''zzz''], 0)"
proof -
  have p: "path_join ''/r'' ''missing.jar'' = ''/r/missing.jar''"
    "path_join ''/r'' ''a.jar'' = ''/r/a.jar''" "\<not> isabs ''missing.jar''" "\<not> isabs ''a.jar''"
    by (simp_all add: path_join_def isabs_def startswith_def endswith_def)
  have e: "\<not> fs_exists two_jars ''/r/missing.jar''" "fs_exists two_jars ''/r/a.jar''"
    by (simp_all add: two_jars_def)
  have s: "scan_jar_file_for_text decode_ascii ''/r/a.jar'' (fs_archive two_jars ''/r/a.jar'')
             ''zzz'' False False False = ([], [])"
    by code_simp
  have b: "process_jar_files_for_text decode_ascii two_jars ''/r'' ''zzz'' False False False
             = ([], [FoundJars 2])"
    by code_simp
  show ?thesis
    using missing_jar_and_no_matches
            [of "''missing.jar''" "''/r''" decode_ascii two_jars "''x''" False False False 10 1000]
          missing_jar_and_no_matches
            [of "''a.jar''" "''/r''" decode_ascii two_jars "''zzz''" False False False 10 1000]
    by (simp add: p e s b Let_def startswith_def)
qed

text \<open>The claim as stated asks for a non-zero exit status when the named archive is
  missing; on \<open>two_jars\<close> with \<open>-j missing.jar\<close> the status is 0.\<close>

theorem missing_jar_exit_status_zero:
  "snd (run_script decode_ascii two_jars ''x'' ''/r'' 10 1000 False False
          (Some ''missing.jar'') False) = 0
   \<and> fst (run_script decode_ascii two_jars ''x'' ''/r'' 10 1000 False False
          (Some ''missing.jar'') False) = [ErrorNotFound ''/r/missing.jar'']"
  by code_simp

section \<open>Merging the scans of a batch\<close>

lemma merge_step:
  "map_of (foldl (\<lambda>jar_to_matches (jar_path, jar_results).
                    if jar_results \<noteq> [] then AList.update jar_path jar_results jar_to_matches
                    else jar_to_matches) d (map (\<lambda>p. (p, f p)) ps)) q
     = (if q \<in> set ps \<and> f q \<noteq> [] then Some (f q) else map_of d q)"
  by (induction ps arbitrary: d) (auto simp: update_conv')

lemma merge_filter:
  "\<forall>p. \<not> keep p \<longrightarrow> f p = [] \<Longrightarrow>
   foldl (\<lambda>jar_to_matches (jar_path, jar_results).
            if jar_results \<noteq> [] then AList.update jar_path jar_results jar_to_matches
            else jar_to_matches) d (map (\<lambda>p. (p, f p)) (filter keep ps))
     = foldl (\<lambda>jar_to_matches (jar_path, jar_results).
                if jar_results \<noteq> [] then AList.update jar_path jar_results jar_to_matches
                else jar_to_matches) d (map (\<lambda>p. (p, f p)) ps)"
  by (induction ps arbitrary: d) auto

lemma aggregate_filter:
  "\<forall>p. \<not> keep p \<longrightarrow> f p = [] \<Longrightarrow>
   foldl (\<lambda>d jar_results. foldl add_jar d jar_results) d (map f (filter keep ps))
     = foldl (\<lambda>d jar_results. foldl add_jar d jar_results) d (map f ps)"
  by (induction ps arbitrary: d) auto

lemma keys_foldl:
  "fst ` set (foldl (\<lambda>d (file_path, matches).
                       if matches \<noteq> [] then AList.update file_path matches d else d)
                    [] (map (\<lambda>p. (p, f p)) ps))
     = {q \<in> set ps. f q \<noteq> []}"
proof -
  have "fst ` set (foldl (\<lambda>d (file_path, matches).
                       if matches \<noteq> [] then AList.update file_path matches d else d)
                    [] (map (\<lambda>p. (p, f p)) ps))
          = dom (map_of (foldl (\<lambda>d (file_path, matches).
                       if matches \<noteq> [] then AList.update file_path matches d else d)
                    [] (map (\<lambda>p. (p, f p)) ps)))"
    by (simp add: dom_map_of_conv_image_fst)
  also have "\<dots> = {q \<in> set ps. f q \<noteq> []}"
    by (auto simp: merge_step dom_def)
  finally show ?thesis .
qed

lemma keys_merge:
  "fst ` set (merge_results (map (\<lambda>p. (p, f p)) ps)) = {q \<in> set ps. f q \<noteq> []}"
  unfolding merge_results_def by (rule keys_foldl)

lemma scan_batch_merge:
  "fst (scan_batch dec fs ps s cs bm deep)
     = merge_results
         (map (\<lambda>q. (q, fst (scan_jar_file_for_text dec q (fs_archive fs q) s cs bm deep))) ps)"
  by (simp add: scan_batch_def Let_def zip_map_self[symmetric] comp_def)

lemma corrupt_text_scan:
  "is_corrupt ar \<Longrightarrow> fst (scan_jar_file_for_text dec p ar s cs bm deep) = []"
  by (cases ar) (simp_all add: scan_jar_file_for_text_def)

lemma corrupt_package_scan: "is_corrupt ar \<Longrightarrow> fst (scan_jar_file dec p ar) = []"
  by (cases ar) (simp_all add: scan_jar_file_def)

text \<open>
  C4. An archive that cannot be opened contributes no record: both per-archive scans catch
  the failure and return the empty list. It does not disturb the rest of the batch: the
  result of each batch scan is the result of the same scan over the archives that can be
  opened.
\<close>

theorem corrupt_archive_isolated:
  "(is_corrupt ar \<longrightarrow>
      fst (scan_jar_file_for_text dec p ar s cs bm deep) = [] \<and> fst (scan_jar_file dec p ar) = [])
   \<and> fst (process_jar_files_for_text dec fs d s cs bm deep)
       = merge_results
           (map (\<lambda>q. (q, fst (scan_jar_file_for_text dec q (fs_archive fs q) s cs bm deep)))
                (filter (\<lambda>q. \<not> is_corrupt (fs_archive fs q)) (find_jar_files fs d)))
   \<and> fst (process_jar_files dec fs d)
       = aggregate_packages
           (map (\<lambda>q. fst (scan_jar_file dec q (fs_archive fs q)))
                (filter (\<lambda>q. \<not> is_corrupt (fs_archive fs q)) (find_jar_files fs d)))"
proof (intro conjI impI)
  assume "is_corrupt ar"
  then show "fst (scan_jar_file_for_text dec p ar s cs bm deep) = []"
    by (rule corrupt_text_scan)
next
  assume "is_corrupt ar"
  then show "fst (scan_jar_file dec p ar) = []"
    by (rule corrupt_package_scan)
next
  have "\<forall>q. \<not> \<not> is_corrupt (fs_archive fs q)
          \<longrightarrow> fst (scan_jar_file_for_text dec q (fs_archive fs q) s cs bm deep) = []"
    by (simp add: corrupt_text_scan)
  from merge_filter[OF this, of "[]" "find_jar_files fs d"]
  show "fst (process_jar_files_for_text dec fs d s cs bm deep)
       = merge_results
           (map (\<lambda>q. (q, fst (scan_jar_file_for_text dec q (fs_archive fs q) s cs bm deep)))
                (filter (\<lambda>q. \<not> is_corrupt (fs_archive fs q)) (find_jar_files fs d)))"
    by (simp add: process_jar_files_for_text_def Let_def scan_batch_merge merge_results_def)
next
  have "\<forall>q. \<not> \<not> is_corrupt (fs_archive fs q)
          \<longrightarrow> fst (scan_jar_file dec q (fs_archive fs q)) = []"
    by (simp add: corrupt_package_scan)
  from aggregate_filter[OF this, of "[]" "find_jar_files fs d"]
  show "fst (process_jar_files dec fs d)
       = aggregate_packages
           (map (\<lambda>q. fst (scan_jar_file dec q (fs_archive fs q)))
                (filter (\<lambda>q. \<not> is_corrupt (fs_archive fs q)) (find_jar_files fs d)))"
    by (simp add: process_jar_files_def Let_def aggregate_packages_def comp_def)
qed

text \<open>On \<open>one_corrupt\<close>: \<open>bad.jar\<close> gives nothing, and both batch scans report what
  \<open>good.jar\<close> holds.\<close>

theorem corrupt_archive_isolated_witness:
  "is_corrupt (fs_archive one_corrupt ''/r/bad.jar'')
   \<and> fst (scan_jar_file_for_text decode_ascii ''/r/bad.jar''
            (fs_archive one_corrupt ''/r/bad.jar'') ''TODO'' False False False) = []
   \<and> fst (scan_jar_file decode_ascii ''/r/bad.jar'' (fs_archive one_corrupt ''/r/bad.jar'')) = []
   \<and> fst (process_jar_files_for_text decode_ascii one_corrupt ''/r'' ''TODO'' False False False)
       = [(''/r/good.jar'', [(''notes.txt'', ''/r/good.jar'', 1, ''TODO x'')])]
   \<and> fst (process_jar_files decode_ascii one_corrupt ''/r'') = [(''com.acme'', [''/r/good.jar''])]"
proof -
  have a: "is_corrupt (fs_archive one_corrupt ''/r/bad.jar'')"
    by (simp add: one_corrupt_def)
  have b: "merge_results
             (map (\<lambda>q. (q, fst (scan_jar_file_for_text decode_ascii q (fs_archive one_corrupt q)
                                   ''TODO'' False False False)))
                  (filter (\<lambda>q. \<not> is_corrupt (fs_archive one_corrupt q))
                          (find_jar_files one_corrupt ''/r'')))
           = [(''/r/good.jar'', [(''notes.txt'', ''/r/good.jar'', 1, ''TODO x'')])]"
    by code_simp
  have c: "aggregate_packages
             (map (\<lambda>q. fst (scan_jar_file decode_ascii q (fs_archive one_corrupt q)))
                  (filter (\<lambda>q. \<not> is_corrupt (fs_archive one_corrupt q))
                          (find_jar_files one_corrupt ''/r'')))
           = [(''com.acme'', [''/r/good.jar''])]"
    by code_simp
  show ?thesis
    using corrupt_archive_isolated
            [of "fs_archive one_corrupt ''/r/bad.jar''" decode_ascii "''/r/bad.jar''" "''TODO''"
                False False False one_corrupt "''/r''"]
          a b c
    by simp
qed


section \<open>The keys of a scan result\<close>

lemma fresh_search:
  "self_results self = [] \<Longrightarrow>
   fst ` set (snd (search_all_files search fs self))
     = {p \<in> set (if self_java_files self = [] then find_java_files_sync fs self
                   else self_java_files self). search p \<noteq> []}"
  by (simp add: search_all_files_def Let_def find_java_files_def keys_foldl)

lemma sync_root:
  "self_root_dir a = self_root_dir b \<Longrightarrow> find_java_files_sync fs a = find_java_files_sync fs b"
  by (simp add: find_java_files_sync_def)

text \<open>
  C9. The keys of the dictionary a scan returns are exactly the sources that produced at
  least one match: for a batch of archives, for \<open>process_jar_files\<close> of the text scanner
  on a directory, and for \<open>search_all_files\<close> of a freshly built source searcher, called
  directly or, as \<open>main\<close> does, after \<open>find_java_files\<close>.
\<close>

theorem scan_result_keys:
  "fst ` set (fst (scan_batch dec fs jar_files s cs bm deep))
     = {p \<in> set jar_files. fst (scan_jar_file_for_text dec p (fs_archive fs p) s cs bm deep) \<noteq> []}
   \<and> fst ` set (fst (process_jar_files_for_text dec fs d s cs bm deep))
     = {p \<in> set (find_jar_files fs d).
          fst (scan_jar_file_for_text dec p (fs_archive fs p) s cs bm deep) \<noteq> []}
   \<and> fst ` set (snd (search_all_files search fs (init_searcher st rd c)))
     = {p \<in> set (find_java_files_sync fs (init_searcher st rd c)). search p \<noteq> []}
   \<and> fst ` set (snd (search_all_files search fs (find_java_files fs (init_searcher st rd c))))
     = {p \<in> set (find_java_files_sync fs (init_searcher st rd c)). search p \<noteq> []}"
proof (intro conjI)
  show "fst ` set (fst (scan_batch dec fs jar_files s cs bm deep))
     = {p \<in> set jar_files. fst (scan_jar_file_for_text dec p (fs_archive fs p) s cs bm deep) \<noteq> []}"
    by (simp only: scan_batch_merge keys_merge)
  show "fst ` set (fst (process_jar_files_for_text dec fs d s cs bm deep))
     = {p \<in> set (find_jar_files fs d).
          fst (scan_jar_file_for_text dec p (fs_archive fs p) s cs bm deep) \<noteq> []}"
    by (simp add: process_jar_files_for_text_def Let_def scan_batch_merge keys_merge)
  show "fst ` set (snd (search_all_files search fs (init_searcher st rd c)))
     = {p \<in> set (find_java_files_sync fs (init_searcher st rd c)). search p \<noteq> []}"
    by (simp add: search_all_files_def Let_def find_java_files_def init_searcher_def keys_foldl)
  show "fst ` set (snd (search_all_files search fs (find_java_files fs (init_searcher st rd c))))
     = {p \<in> set (find_java_files_sync fs (init_searcher st rd c)). search p \<noteq> []}"
  proof -
    let ?a = "init_searcher st rd c"
    let ?b = "find_java_files fs ?a"
    have r: "self_results ?b = []"
      by (simp add: find_java_files_def init_searcher_def)
    have j: "self_java_files ?b = find_java_files_sync fs ?a"
      by (simp add: find_java_files_def)
    have f: "find_java_files_sync fs ?b = find_java_files_sync fs ?a"
      by (rule sync_root) (simp add: find_java_files_def)
    show ?thesis
      unfolding fresh_search[OF r] j f by auto
  qed
qed

text \<open>On \<open>one_corrupt\<close>, searching for \<open>TODO\<close>: the only key is \<open>good.jar\<close>; the archive that
  failed is not a key.\<close>

theorem scan_result_keys_witness:
  "fst ` set (fst (process_jar_files_for_text decode_ascii one_corrupt ''/r'' ''TODO''
                     False False False)) = {''/r/good.jar''}
   \<and> find_jar_files one_corrupt ''/r'' = [''/r/bad.jar'', ''/r/good.jar'']"
proof -
  have j: "find_jar_files one_corrupt ''/r'' = [''/r/bad.jar'', ''/r/good.jar'']"
    by code_simp
  have b: "fst (scan_jar_file_for_text decode_ascii ''/r/bad.jar''
                  (fs_archive one_corrupt ''/r/bad.jar'') ''TODO'' False False False) = []"
    by code_simp
  have g: "fst (scan_jar_file_for_text decode_ascii ''/r/good.jar''
                  (fs_archive one_corrupt ''/r/good.jar'') ''TODO'' False False False) \<noteq> []"
    by code_simp
  have "{p \<in> set (find_jar_files one_corrupt ''/r'').
           fst (scan_jar_file_for_text decode_ascii p (fs_archive one_corrupt p) ''TODO''
                  False False False) \<noteq> []} = {''/r/good.jar''}"
    unfolding j using b g by auto
  then show ?thesis
    using scan_result_keys[of decode_ascii one_corrupt "[]" "''TODO''" False False False "''/r''"]
          j
    by simp
qed


section \<open>The display of one source\<close>

lemma report_loop_blocks:
  "\<exists>tail. fst (report_loop L T d keys t disp)
            = concat (map (\<lambda>q. show_jar L q (matches_of d q)) (visited_sources L T d keys disp))
              @ tail
          \<and> list_all is_trailer tail"
proof (induction keys arbitrary: t disp)
  case Nil
  show ?case by simp
next
  case (Cons p rest)
  show ?case
  proof (cases "map_of d p")
    case None
    then show ?thesis by simp
  next
    case (Some ms)
    let ?disp' = "disp + min (int (length ms)) L"
    show ?thesis
    proof (cases "?disp' \<ge> T")
      case True
      with Some show ?thesis by (simp add: Let_def matches_of_def)
    next
      case False
      from Cons.IH[of "t + int (length ms)" ?disp'] obtain tail where
        tl: "fst (report_loop L T d rest (t + int (length ms)) ?disp')
               = concat (map (\<lambda>q. show_jar L q (matches_of d q))
                             (visited_sources L T d rest ?disp')) @ tail"
        and tr: "list_all is_trailer tail"
        by blast
      have "fst (report_loop L T d (p # rest) t disp)
              = show_jar L p ms @ fst (report_loop L T d rest (t + int (length ms)) ?disp')"
        using Some False by (simp add: Let_def case_prod_unfold)
      with tl tr Some False show ?thesis
        by (simp add: Let_def matches_of_def)
    qed
  qed
qed

lemma report_blocks:
  "d \<noteq> [] \<Longrightarrow>
     \<exists>tail. report s L T d
              = concat (map (\<lambda>q. show_jar L q (matches_of d q)) (visited_jars L T d)) @ tail
            \<and> list_all is_trailer tail"
proof -
  assume d: "d \<noteq> []"
  from report_loop_blocks[of L T d "sort (map fst d)" 0 0] obtain tail where
    tl: "fst (report_loop L T d (sort (map fst d)) 0 0)
           = concat (map (\<lambda>q. show_jar L q (matches_of d q)) (visited_jars L T d)) @ tail"
    and tr: "list_all is_trailer tail"
    unfolding visited_jars_def by blast
  obtain printed tm dm where r: "report_loop L T d (sort (map fst d)) 0 0 = (printed, tm, dm)"
    by (cases "report_loop L T d (sort (map fst d)) 0 0") auto
  have "report s L T d
          = concat (map (\<lambda>q. show_jar L q (matches_of d q)) (visited_jars L T d))
            @ (tail @ [Summary tm (length d)] @ (if dm < tm then [Displayed dm tm] else []))"
    using d r tl by (simp add: report_def)
  moreover have "list_all is_trailer
                   (tail @ [Summary tm (length d)] @ (if dm < tm then [Displayed dm tm] else []))"
    using tr by simp
  ultimately show ?thesis by blast
qed

lemma main_directory:
  "main dec fs s cd L T cs bm None deep
     = ScanningDir s cd # snd (process_jar_files_for_text dec fs cd s cs bm deep)
       @ [ResultsHeader, Rule]
       @ report s L T (fst (process_jar_files_for_text dec fs cd s cs bm deep))"
  by (simp add: main_def Let_def)

lemma show_jar_block:
  "0 \<le> L \<Longrightarrow>
     show_jar L p ms
       = (if L < int (length ms)
          then JarHeader p (length ms) # map print_match (take (nat L) ms)
               @ [MoreMatches (int (length ms) - L), Blank]
          else JarHeader p (length ms) # map print_match ms @ [Blank])"
  by (auto simp: show_jar_def py_slice_to_nonneg min_def)

text \<open>
  C5, as amended. With a per-source limit L that is not negative, the report is made of
  the blocks of the sources it visits, in order, followed only by the total-limit notice
  and the summary lines; the visited sources are the sorted sources up to and including
  the one at which the number of displayed matches reaches the total limit. The block of
  a visited source with N matches is its header, then, when L < N, its first L matches
  (exactly L lines) and the notice that says N - L more matches, and, when L \<ge> N, all
  its N matches and no notice; then the empty line. The report of a directory scan is what
  \<open>main\<close> prints after its banner.
\<close>

theorem visited_source_display:
  "0 \<le> L \<Longrightarrow>
     (d \<noteq> [] \<longrightarrow>
        (\<exists>tail. report s L T d
                  = concat (map (\<lambda>q. show_jar L q (matches_of d q)) (visited_jars L T d)) @ tail
                \<and> list_all is_trailer tail))
   \<and> (fst (process_jar_files_for_text dec fs cd s cs bm deep) \<noteq> [] \<longrightarrow>
        (\<exists>tail. main dec fs s cd L T cs bm None deep
                  = ScanningDir s cd # snd (process_jar_files_for_text dec fs cd s cs bm deep)
                    @ [ResultsHeader, Rule]
                    @ concat (map (\<lambda>q. show_jar L q
                                          (matches_of (fst (process_jar_files_for_text dec fs cd s
                                                              cs bm deep)) q))
                                  (visited_jars L T (fst (process_jar_files_for_text dec fs cd s
                                                            cs bm deep))))
                    @ tail
                \<and> list_all is_trailer tail))
   \<and> (L < int (length ms) \<longrightarrow>
        show_jar L p ms
          = JarHeader p (length ms) # map print_match (take (nat L) ms)
            @ [MoreMatches (int (length ms) - L), Blank]
        \<and> int (length (map print_match (take (nat L) ms))) = L
        \<and> render (MoreMatches (int (length ms) - L))
          = [''  ... and '' @ str_int (int (length ms) - L)
               @ '' more matches (use --limit to show more)''])
   \<and> (int (length ms) \<le> L \<longrightarrow>
        show_jar L p ms = JarHeader p (length ms) # map print_match ms @ [Blank])"
proof (intro conjI impI)
  assume "d \<noteq> []"
  then show "\<exists>tail. report s L T d
                  = concat (map (\<lambda>q. show_jar L q (matches_of d q)) (visited_jars L T d)) @ tail
                \<and> list_all is_trailer tail"
    by (rule report_blocks)
next
  let ?batch = "process_jar_files_for_text dec fs cd s cs bm deep"
  assume "fst ?batch \<noteq> []"
  from report_blocks[OF this, of s L T] obtain tail where
    "report s L T (fst ?batch)
       = concat (map (\<lambda>q. show_jar L q (matches_of (fst ?batch) q)) (visited_jars L T (fst ?batch)))
         @ tail"
    and "list_all is_trailer tail"
    by blast
  then show "\<exists>tail. main dec fs s cd L T cs bm None deep
                  = ScanningDir s cd # snd ?batch @ [ResultsHeader, Rule]
                    @ concat (map (\<lambda>q. show_jar L q (matches_of (fst ?batch) q))
                                  (visited_jars L T (fst ?batch)))
                    @ tail
                \<and> list_all is_trailer tail"
    by (simp add: main_directory)
next
  assume L: "0 \<le> L" and lt: "L < int (length ms)"
  from show_jar_block[OF L, of p ms] lt
  show "show_jar L p ms
          = JarHeader p (length ms) # map print_match (take (nat L) ms)
            @ [MoreMatches (int (length ms) - L), Blank]"
    by simp
  from L lt show "int (length (map print_match (take (nat L) ms))) = L"
    by simp
  show "render (MoreMatches (int (length ms) - L))
          = [''  ... and '' @ str_int (int (length ms) - L)
               @ '' more matches (use --limit to show more)'']"
    by simp
next
  assume L: "0 \<le> L" and ge: "int (length ms) \<le> L"
  from show_jar_block[OF L, of p ms] ge
  show "show_jar L p ms = JarHeader p (length ms) # map print_match ms @ [Blank]"
    by simp
qed

text \<open>Five matching lines in one archive and a limit of 2: the archive is visited, and
  its block shows two lines and ``... and 3 more matches''.\<close>

theorem visited_source_display_witness:
  "(0::int) \<le> 2
   \<and> [(''a.jar'', five_todo)] \<noteq> []
   \<and> visited_jars 2 1000 [(''a.jar'', five_todo)] = [''a.jar'']
   \<and> (\<exists>tail. report ''TODO'' 2 1000 [(''a.jar'', five_todo)]
                = [JarHeader ''a.jar'' 5, MatchLine ''T.txt'' 1 ''TODO a'',
                   MatchLine ''T.txt'' 2 ''TODO b'', MoreMatches 3, Blank] @ tail
              \<and> list_all is_trailer tail)
   \<and> render (MoreMatches 3) = [''  ... and 3 more matches (use --limit to show more)'']"
proof -
  have v: "visited_jars 2 1000 [(''a.jar'', five_todo)] = [''a.jar'']"
    by code_simp
  have m: "matches_of [(''a.jar'', five_todo)] ''a.jar'' = five_todo"
    by (simp add: matches_of_def)
  have n: "length five_todo = 5"
    by (simp add: five_todo_def)
  have k: "take 2 five_todo
             = [(''T.txt'', ''a.jar'', 1, ''TODO a''), (''T.txt'', ''a.jar'', 2, ''TODO b'')]"
    by code_simp
  have r: "str_int 3 = ''3''" by code_simp
  note t = visited_source_display
             [of 2 "[(''a.jar'', five_todo)]" "''TODO''" 1000 decode_ascii two_jars "''/r''"
                 False False False five_todo "''a.jar''"]
  have b: "show_jar 2 ''a.jar'' five_todo
             = [JarHeader ''a.jar'' 5, MatchLine ''T.txt'' 1 ''TODO a'',
                MatchLine ''T.txt'' 2 ''TODO b'', MoreMatches 3, Blank]"
    using t by (simp add: n k print_match_def)
  have "\<exists>tail. report ''TODO'' 2 1000 [(''a.jar'', five_todo)]
                = show_jar 2 ''a.jar'' five_todo @ tail
              \<and> list_all is_trailer tail"
    using t by (simp add: v m)
  then show ?thesis
    using t by (simp add: v b n k r)
qed

text \<open>The claim as stated speaks of every source and every limit. On \<open>two_jars\<close> with
  a per-source limit of 1 and a total limit of 1 the report stops after \<open>a.jar\<close>: \<open>b.jar\<close>
  has two matches and none of them is shown, nor any notice for it. And with a
  per-source limit of -1 a source with three matches shows two lines and says 4 more.\<close>

theorem unvisited_source_not_displayed:
  "main decode_ascii two_jars ''x'' ''/r'' 1 1 False False None False
     = [ScanningDir ''x'' ''/r'', FoundJars 2, ResultsHeader, Rule,
        JarHeader ''/r/a.jar'' 3, MatchLine ''A.txt'' 1 ''x1'', MoreMatches 2, Blank,
        LimitReached 1, Summary 3 2, Displayed 1 3]
   \<and> matches_of (fst (process_jar_files_for_text decode_ascii two_jars ''/r'' ''x''
                         False False False)) ''/r/b.jar''
     = [(''B.txt'', ''/r/b.jar'', 1, ''x4''), (''B.txt'', ''/r/b.jar'', 2, ''x5'')]
   \<and> show_jar (- 1) ''a.jar''
        [(''A.txt'', ''a.jar'', 1, ''x1''), (''A.txt'', ''a.jar'', 2, ''x2''),
         (''A.txt'', ''a.jar'', 3, ''x3'')]
     = [JarHeader ''a.jar'' 3, MatchLine ''A.txt'' 1 ''x1'', MatchLine ''A.txt'' 2 ''x2'',
        MoreMatches 4, Blank]"
  by code_simp


section \<open>Binary search\<close>

lemma binary_entry_count:
  "length (scan_entry_for_text dec jp s cs True deep e)
     = (case snd e of
          Some c \<Rightarrow> if py_contains (encode_utf8 s) c then 1 else 0
        | None \<Rightarrow> 0)"
  by (simp add: scan_entry_for_text_def is_target_file_def binary_matches_def Let_def
           split: option.splits)

lemma binary_records_name:
  "r \<in> set (binary_matches file_name jp s deep c) \<Longrightarrow> fst r = file_name"
  by (cases "py_contains (encode_utf8 s) c") (simp_all add: binary_matches_def Let_def)

lemma text_records_name:
  "r \<in> set (text_matches file_name jp s cs c) \<Longrightarrow> fst r = file_name"
  by (auto simp: text_matches_def Let_def)

lemma entry_records_name:
  "r \<in> set (scan_entry_for_text dec jp s cs bm deep e) \<Longrightarrow> fst r = fst e"
proof (cases "is_target_file bm (fst e)")
  case False
  assume "r \<in> set (scan_entry_for_text dec jp s cs bm deep e)"
  with False show ?thesis by (simp add: scan_entry_for_text_def)
next
  case True
  assume r: "r \<in> set (scan_entry_for_text dec jp s cs bm deep e)"
  show ?thesis
  proof (cases "snd e")
    case None
    with r True show ?thesis by (simp add: scan_entry_for_text_def)
  next
    case (Some raw)
    with r True show ?thesis
      by (cases bm)
         (auto simp: scan_entry_for_text_def dest: binary_records_name text_records_name)
  qed
qed

lemma filter_entry_records:
  "filter (\<lambda>r. fst r = name) (scan_entry_for_text dec jp s cs bm deep e)
     = (if fst e = name then scan_entry_for_text dec jp s cs bm deep e else [])"
proof (cases "fst e = name")
  case True
  then have "\<forall>r \<in> set (scan_entry_for_text dec jp s cs bm deep e). fst r = name"
    using entry_records_name[of _ dec jp s cs bm deep e] by auto
  then show ?thesis using True by (simp add: filter_id_conv)
next
  case False
  then have "\<forall>r \<in> set (scan_entry_for_text dec jp s cs bm deep e). fst r \<noteq> name"
    using entry_records_name[of _ dec jp s cs bm deep e] by auto
  then show ?thesis using False by (simp add: filter_empty_conv)
qed

lemma count_records:
  "length (filter (\<lambda>r. fst r = name)
             (concat (map (scan_entry_for_text dec jp s cs True deep) es)))
   = length (filter (\<lambda>e. fst e = name
                          \<and> (case snd e of
                                Some c \<Rightarrow> py_contains (encode_utf8 s) c
                              | None \<Rightarrow> False)) es)"
proof (induction es)
  case Nil
  show ?case by simp
next
  case (Cons e es)
  have "length (filter (\<lambda>r. fst r = name) (scan_entry_for_text dec jp s cs True deep e))
          = (if fst e = name then length (scan_entry_for_text dec jp s cs True deep e) else 0)"
    by (simp add: filter_entry_records)
  also have "\<dots> = (if fst e = name
                        \<and> (case snd e of
                              Some c \<Rightarrow> py_contains (encode_utf8 s) c
                            | None \<Rightarrow> False) then 1 else 0)"
    unfolding binary_entry_count by (simp split: option.splits)
  finally have "length (filter (\<lambda>r. fst r = name) (scan_entry_for_text dec jp s cs True deep e))
          = (if fst e = name
                \<and> (case snd e of
                      Some c \<Rightarrow> py_contains (encode_utf8 s) c
                    | None \<Rightarrow> False) then 1 else 0)" .
  with Cons show ?case by simp
qed

text \<open>
  C6. In binary mode a member whose bytes contain the UTF-8 encoding of the search string
  adds exactly one record, whatever its name and however often the string occurs: the record
  carries line number 0 and a non-empty snippet that names the position of the first
  occurrence. In the list an archive scan returns, the records of a member name are as many
  as the members of that name whose bytes contain the string.
\<close>

theorem binary_match_once:
  "(py_contains (encode_utf8 s) content \<longrightarrow>
      (\<exists>snippet ctx.
         scan_entry_for_text dec jp s cs True deep (name, Some content)
           = [(name, jp, 0, snippet)]
         \<and> snippet \<noteq> []
         \<and> snippet = ''Binary match at position ''
                       @ str_int (py_find (encode_utf8 s) content) @ '': '' @ ctx))
   \<and> length (filter (\<lambda>r. fst r = name)
               (fst (scan_jar_file_for_text dec jp (Zip es) s cs True deep)))
     = length (filter (\<lambda>e. fst e = name
                            \<and> (case snd e of
                                  Some c \<Rightarrow> py_contains (encode_utf8 s) c
                                | None \<Rightarrow> False)) es)"
proof (intro conjI impI)
  assume "py_contains (encode_utf8 s) content"
  then show "\<exists>snippet ctx.
         scan_entry_for_text dec jp s cs True deep (name, Some content)
           = [(name, jp, 0, snippet)]
         \<and> snippet \<noteq> []
         \<and> snippet = ''Binary match at position ''
                       @ str_int (py_find (encode_utf8 s) content) @ '': '' @ ctx"
    by (simp add: scan_entry_for_text_def is_target_file_def binary_matches_def Let_def)
next
  show "length (filter (\<lambda>r. fst r = name)
               (fst (scan_jar_file_for_text dec jp (Zip es) s cs True deep)))
     = length (filter (\<lambda>e. fst e = name
                            \<and> (case snd e of
                                  Some c \<Rightarrow> py_contains (encode_utf8 s) c
                                | None \<Rightarrow> False)) es)"
    by (simp add: scan_jar_file_for_text_def count_records)
qed

text \<open>A class file that holds \<open>ab\<close> twice: one record, at position 2.\<close>

theorem binary_match_once_witness:
  "py_contains (encode_utf8 ''ab'') (ascii_bytes ''xxabyyab'')
   \<and> (\<exists>snippet. scan_entry_for_text decode_ascii ''a.jar'' ''ab'' False True False
                    (''X.class'', Some (ascii_bytes ''xxabyyab''))
                  = [(''X.class'', ''a.jar'', 0, snippet)]
                \<and> snippet \<noteq> [])
   \<and> py_find (encode_utf8 ''ab'') (ascii_bytes ''xxabyyab'') = 2"
proof -
  have h: "py_contains (encode_utf8 ''ab'') (ascii_bytes ''xxabyyab'')"
    by code_simp
  have f: "py_find (encode_utf8 ''ab'') (ascii_bytes ''xxabyyab'') = 2"
    by code_simp
  from h binary_match_once
         [of "''ab''" "ascii_bytes ''xxabyyab''" decode_ascii "''a.jar''" False False "''X.class''"]
  have "\<exists>snippet. scan_entry_for_text decode_ascii ''a.jar'' ''ab'' False True False
                    (''X.class'', Some (ascii_bytes ''xxabyyab''))
                  = [(''X.class'', ''a.jar'', 0, snippet)]
                \<and> snippet \<noteq> []"
    by blast
  with h f show ?thesis by simp
qed


section \<open>Empty members\<close>

text \<open>
  C7, as amended. A member with empty content adds no record in text mode, and none in
  binary mode when the search string is not empty. (The decoder gives the empty string on
  no bytes.)
\<close>

theorem empty_entry_never_matches:
  "dec [] = [] \<Longrightarrow> \<not> bm \<or> s \<noteq> [] \<Longrightarrow>
     scan_entry_for_text dec jp s cs bm deep (name, Some []) = []"
proof -
  assume d: "dec [] = []" and h: "\<not> bm \<or> s \<noteq> []"
  show ?thesis
  proof (cases bm)
    case True
    with h have "encode_utf8 s \<noteq> []" by (simp add: encode_utf8_empty)
    then show ?thesis using True
      by (simp add: scan_entry_for_text_def binary_matches_def Let_def)
  next
    case False
    then show ?thesis using d
      by (simp add: scan_entry_for_text_def text_matches_def splitlines_def)
  qed
qed

text \<open>An empty text member searched for the empty string in text mode, and an empty
  member searched for \<open>x\<close> in binary mode.\<close>

theorem empty_entry_never_matches_witness:
  "decode_ascii [] = []
   \<and> scan_entry_for_text decode_ascii ''a.jar'' '''' False False False (''empty.txt'', Some []) = []
   \<and> scan_entry_for_text decode_ascii ''a.jar'' ''x'' False True False (''empty.bin'', Some []) = []"
proof -
  have d: "decode_ascii [] = []" by (simp add: decode_ascii_def)
  show ?thesis
    using d
          empty_entry_never_matches
            [of decode_ascii False "''''" "''a.jar''" False False "''empty.txt''"]
          empty_entry_never_matches
            [of decode_ascii True "''x''" "''a.jar''" False False "''empty.bin''"]
    by simp
qed

text \<open>The claim as stated covers every search string; in binary mode the empty search
  string is found in an empty member, at position 0.\<close>

theorem empty_entry_empty_search_matches:
  "scan_entry_for_text decode_ascii ''a.jar'' '''' False True False (''empty.bin'', Some [])
     = [(''empty.bin'', ''a.jar'', 0, ''Binary match at position 0: b'' @ [CHR 0x27, CHR 0x27])]"
  by code_simp


section \<open>The members text mode scans\<close>




end
